theory Spec2Isabelle
  imports Complex_Main
begin

section \<open>Ovarian cancer risk factors (bws/risk_factors/oc.py)\<close>

text \<open>
  The module declares seven risk-factor classes, each with a list \<open>cats\<close> of category
  labels, some of them overriding the classifier \<open>get_category\<close>, and the registry
  \<open>OCRiskFactors\<close> with two ordered dictionaries derived from the class list.

  Python strings are modelled as \<^typ>\<open>string\<close>, a \<^typ>\<open>char\<close> being a code point
  below 256. Category numbers are natural numbers, parsed numbers are rationals, and an
  exception is a value of the type \<open>error\<close>.
\<close>

subsection \<open>The string methods the classifiers use\<close>

text \<open>\<open>str.lower\<close>: on code points below 256 the capital letters are \<open>A\<close>-\<open>Z\<close> and
  the Latin-1 capitals \<open>0xC0\<close>-\<open>0xDE\<close> without the multiplication sign \<open>0xD7\<close>; each
  is 32 below its small letter.\<close>

definition lower_char :: "char \<Rightarrow> char" where
  "lower_char c = (let n = (of_char c :: nat) in
     if (65 \<le> n \<and> n \<le> 90) \<or> (192 \<le> n \<and> n \<le> 222 \<and> n \<noteq> 215)
     then char_of (n + 32) else c)"

definition str_lower :: "string \<Rightarrow> string" where
  "str_lower s = map lower_char s"

text \<open>\<open>str.strip()\<close> removes the white space at both ends; below 256 the white-space code
  points are 9-13, 28-32, 133 and 160.\<close>

definition is_space :: "char \<Rightarrow> bool" where
  "is_space c = ((of_char c :: nat) \<in> set [9, 10, 11, 12, 13, 28, 29, 30, 31, 32, 133, 160])"

definition str_strip :: "string \<Rightarrow> string" where
  "str_strip s = rev (dropWhile is_space (rev (dropWhile is_space s)))"

text \<open>\<open>str.split(sep)\<close> for a separator of one character: the pieces between the
  separators, in order; \<open>acc\<close> holds the current piece reversed.\<close>

fun split_acc :: "char \<Rightarrow> string \<Rightarrow> string \<Rightarrow> string list" where
  "split_acc sep acc [] = [rev acc]"
| "split_acc sep acc (c # cs) =
     (if c = sep then rev acc # split_acc sep [] cs else split_acc sep (c # acc) cs)"

definition str_split :: "char \<Rightarrow> string \<Rightarrow> string list" where
  "str_split sep s = split_acc sep [] s"

subsection \<open>Values and exceptions\<close>

datatype error = IndexError | ValueError | TypeError

text \<open>What a classifier of the base class may be handed: a string, a number already parsed,
  or \<open>None\<close>.\<close>

datatype pyval = PStr string | PNum rat | PNone

subsection \<open>The risk-factor classes and their category labels\<close>

datatype risk_factor =
  Parity | OralContraception | MHT | TubalLigation | Endometriosis | BMI | Height

fun cats :: "risk_factor \<Rightarrow> string list" where
  "cats Parity = [''-'', ''0'', ''1'', ''>1'']"
| "cats OralContraception = [''-'', ''never or <1'', ''1-4'', ''5-9'', ''10-14'', ''>=15'']"
| "cats MHT = [''-'', ''never'', ''ever'']"
| "cats TubalLigation = [''-'', ''no'', ''yes'']"
| "cats Endometriosis = [''-'', ''no'', ''yes'']"
| "cats BMI = [''-'', ''<22.5'', ''22.5-<30'', ''>=30'']"
| "cats Height = [''-'', ''<152.91'', ''152.91-<159.65'', ''159.65-<165.96'',
     ''165.96-<172.70'', ''>=172.70'']"

subsection \<open>MHT, TubalLigation and Endometriosis\<close>

text \<open>\<open>MHT.get_category\<close> compares the value as it is given.\<close>

definition MHT_get_category :: "string \<Rightarrow> nat" where
  "MHT_get_category val =
     (if val = ''N'' \<or> val = ''never'' then 1
      else if val = ''E'' \<or> val = ''F'' \<or> val = ''C'' \<or> val = ''ever'' then 2
      else 0)"

text \<open>The loop \<open>for idx, cat in enumerate(cats): if val == cat or val == alt[idx]: return idx\<close>
  followed by \<open>return 0\<close>. The second comparison is only made when the first fails, and
  \<open>alt[idx]\<close> raises \<open>IndexError\<close> past the end of \<open>alt\<close>.\<close>

fun enum_match :: "string \<Rightarrow> string list \<Rightarrow> nat \<Rightarrow> string list \<Rightarrow> error + nat" where
  "enum_match val alt idx [] = Inr 0"
| "enum_match val alt idx (cat # rest) =
     (if val = cat then Inr idx
      else if length alt \<le> idx then Inl IndexError
      else if val = alt ! idx then Inr idx
      else enum_match val alt (Suc idx) rest)"

definition TubalLigation_get_category :: "string \<Rightarrow> error + nat" where
  "TubalLigation_get_category val =
     (let alt = [''na'', ''n'', ''y''];
          val = str_strip (str_lower val)
      in enum_match val alt 0 (cats TubalLigation))"

definition Endometriosis_get_category :: "string \<Rightarrow> error + nat" where
  "Endometriosis_get_category val =
     (let alt = [''na'', ''n'', ''y''];
          val = str_strip (str_lower val)
      in enum_match val alt 0 (cats Endometriosis))"

text \<open>The table the yes/no factors are meant to implement, on a value already lower-cased
  and stripped: label \<open>-\<close> or code \<open>na\<close> is 0, \<open>no\<close> or \<open>n\<close> is 1, \<open>yes\<close> or \<open>y\<close> is 2,
  anything else 0. The loops above are compared with it below.\<close>

definition yes_no_category :: "string \<Rightarrow> nat" where
  "yes_no_category v =
     (if v = ''-'' \<or> v = ''na'' then 0
      else if v = ''no'' \<or> v = ''n'' then 1
      else if v = ''yes'' \<or> v = ''y'' then 2
      else 0)"

subsection \<open>OralContraception\<close>

text \<open>
  \<open>OralContraception.get_category(val, isreal=False)\<close>. Two functions it calls are
  inherited from \<open>RiskFactor\<close> (bws/risk_factors/rfs.py, not among the sources) and are
  parameters here: \<open>get_num\<close>, which returns a number or raises, and
  \<open>super_get_category\<close>, the classifier of the base class. The
  \<open>try\<close>/\<open>except Exception\<close> block catches what \<open>get_num\<close> raises, prints it and goes on
  with \<open>val\<close> unchanged; after a successful \<open>get_num\<close>, \<open>val\<close> is the number.
  \<open>val.split(':')[1]\<close> raises \<open>IndexError\<close> when there is one piece only.
\<close>

definition OralContraception_get_category ::
  "(pyval \<Rightarrow> bool \<Rightarrow> error + rat) \<Rightarrow> (pyval \<Rightarrow> bool \<Rightarrow> error + nat)
    \<Rightarrow> string \<Rightarrow> bool \<Rightarrow> error + nat" where
  "OralContraception_get_category get_num super_get_category val isreal =
     (if val = ''-'' then Inr 0
      else if val = ''N'' \<or> str_lower val = ''never'' \<or> str_lower val = ''<1'' then Inr 1
      else if CHR '':'' \<notin> set val then Inr 0
      else (case str_split CHR '':'' val of
              _ # val1 # _ \<Rightarrow>
                if str_strip val1 = ''<1'' \<or> str_strip val1 = ''< 1'' then Inr 1
                else (case get_num (PStr val1) True of
                        Inr v \<Rightarrow> if v < 1 then Inr 1 else super_get_category (PNum v) isreal
                      | Inl e \<Rightarrow> super_get_category (PStr val1) isreal)
            | _ \<Rightarrow> Inl IndexError))"

subsection \<open>The classifier of the base class, BMI and Height\<close>

text \<open>
  BMI and Height override \<open>get_category\<close> only to change the default of \<open>isreal\<close>; the
  classification itself is \<open>RiskFactor.get_category\<close> in bws/risk_factors/rfs.py, which is
  not among the sources. The definitions of this subsection up to
  \<open>RiskFactor_get_category\<close> are therefore written from the spec's description of it.
\<close>

text \<open>Modelled from the spec: the numerals inside the category labels, which the absent
  \<open>RiskFactor.get_category\<close> has to read to find a label's boundaries. They are decimal
  numerals: digits, optionally followed by a point and more digits.\<close>

definition digit_val :: "char \<Rightarrow> nat option" where
  "digit_val c = (let n = (of_char c :: nat) in if 48 \<le> n \<and> n \<le> 57 then Some (n - 48) else None)"

fun digits_val :: "nat \<Rightarrow> string \<Rightarrow> nat option" where
  "digits_val acc [] = Some acc"
| "digits_val acc (c # cs) =
     (case digit_val c of None \<Rightarrow> None | Some d \<Rightarrow> digits_val (10 * acc + d) cs)"

definition parse_decimal :: "string \<Rightarrow> rat option" where
  "parse_decimal s =
     (let ip = takeWhile (\<lambda>c. c \<noteq> CHR ''.'') s;
          rest = dropWhile (\<lambda>c. c \<noteq> CHR ''.'') s
      in if ip = [] then None
         else (case digits_val 0 ip of
                 None \<Rightarrow> None
               | Some i \<Rightarrow>
                   if rest = [] then Some (of_nat i)
                   else if tl rest = [] then None
                   else (case digits_val 0 (tl rest) of
                           None \<Rightarrow> None
                         | Some f \<Rightarrow> Some (of_nat i + of_nat f / 10 ^ length (tl rest)))))"

text \<open>Modelled from the spec: the labeled boundary range of a category, for the absent
  \<open>RiskFactor.get_category\<close>. The spec names the half-open \<open>low-<high\<close> and the final
  \<open>>=threshold\<close>. The other labels of oc.py are read in the same way: \<open><high\<close> has an upper
  boundary only, \<open>>low\<close> a strict lower one, \<open>low-high\<close> (whole numbers, as in \<open>1-4\<close>)
  includes both ends, and a single numeral stands for that number alone. A label of several
  words, \<open>never or <1\<close>, is read from its last word. The label \<open>-\<close> of category 0 stands
  for no range.\<close>

datatype bucket =
  Below rat | MoreThan rat | AtLeast rat | Between rat rat | Within rat rat | Exactly rat

fun in_bucket :: "bucket \<Rightarrow> rat \<Rightarrow> bool" where
  "in_bucket (Below high) v = (v < high)"
| "in_bucket (MoreThan low) v = (low < v)"
| "in_bucket (AtLeast threshold) v = (threshold \<le> v)"
| "in_bucket (Between low high) v = (low \<le> v \<and> v < high)"
| "in_bucket (Within low high) v = (low \<le> v \<and> v \<le> high)"
| "in_bucket (Exactly n) v = (v = n)"

definition last_word :: "string \<Rightarrow> string" where
  "last_word l = rev (takeWhile (\<lambda>c. c \<noteq> CHR '' '') (rev l))"

definition parse_range :: "string \<Rightarrow> bucket option" where
  "parse_range w =
     (if take 2 w = ''>='' then map_option AtLeast (parse_decimal (drop 2 w))
      else if take 1 w = ''>'' then map_option MoreThan (parse_decimal (drop 1 w))
      else if take 1 w = ''<'' then map_option Below (parse_decimal (drop 1 w))
      else (let low = takeWhile (\<lambda>c. c \<noteq> CHR ''-'') w;
                rest = dropWhile (\<lambda>c. c \<noteq> CHR ''-'') w
            in if rest = [] then map_option Exactly (parse_decimal w)
               else (case parse_decimal low of
                       None \<Rightarrow> None
                     | Some a \<Rightarrow>
                         if take 2 rest = ''-<''
                         then map_option (Between a) (parse_decimal (drop 2 rest))
                         else map_option (Within a) (parse_decimal (drop 1 rest)))))"

definition parse_label :: "string \<Rightarrow> bucket option" where
  "parse_label l = parse_range (last_word l)"

text \<open>Modelled from the spec: locating the category whose labeled boundary range contains
  the value \<open>v\<close>, for the absent \<open>RiskFactor.get_category\<close>: the position of the first such
  label, counted from \<open>idx\<close>, and 0 when there is none.\<close>

fun find_category :: "rat \<Rightarrow> nat \<Rightarrow> string list \<Rightarrow> nat" where
  "find_category v idx [] = 0"
| "find_category v idx (l # ls) =
     (case parse_label l of
        Some b \<Rightarrow> if in_bucket b v then idx else find_category v (Suc idx) ls
      | None \<Rightarrow> find_category v (Suc idx) ls)"

text \<open>Modelled from the spec: \<open>RiskFactor.get_category\<close>, the classifier of the base class
  in bws/risk_factors/rfs.py, which is not among the sources. The spec: locate the category
  whose labeled boundary range contains the numeric value; boundaries are half-open; unparsable
  or missing input returns category 0. The labels are those of the class, \<open>get_num\<close> is the
  parameter of the same name as above, and a missing value is \<open>None\<close>.\<close>

definition RiskFactor_get_category ::
  "(pyval \<Rightarrow> bool \<Rightarrow> error + rat) \<Rightarrow> string list \<Rightarrow> pyval \<Rightarrow> bool \<Rightarrow> error + nat" where
  "RiskFactor_get_category get_num labels val isreal =
     (if val = PNone then Inr 0
      else (case get_num val isreal of
              Inl e \<Rightarrow> Inr 0
            | Inr v \<Rightarrow> Inr (find_category v 0 labels)))"

text \<open>\<open>BMI.get_category(val, isreal=True)\<close> and \<open>Height.get_category(val, isreal=True)\<close>
  hand both arguments to the base class.\<close>

definition BMI_get_category ::
  "(pyval \<Rightarrow> bool \<Rightarrow> error + rat) \<Rightarrow> pyval \<Rightarrow> bool \<Rightarrow> error + nat" where
  "BMI_get_category get_num val isreal = RiskFactor_get_category get_num (cats BMI) val isreal"

definition Height_get_category ::
  "(pyval \<Rightarrow> bool \<Rightarrow> error + rat) \<Rightarrow> pyval \<Rightarrow> bool \<Rightarrow> error + nat" where
  "Height_get_category get_num val isreal = RiskFactor_get_category get_num (cats Height) val isreal"

text \<open>A parser to put in the place of the parameter \<open>get_num\<close> in the instances below.
  With \<open>isreal\<close> it returns a number as it is and reads a string, once stripped, as a
  decimal numeral; without, it cuts a number to its whole part and reads a string of digits
  only. Anything else raises.\<close>

definition decimal_get_num :: "pyval \<Rightarrow> bool \<Rightarrow> error + rat" where
  "decimal_get_num val isreal =
     (case val of
        PNum x \<Rightarrow> Inr (if isreal then x else of_int (if 0 \<le> x then \<lfloor>x\<rfloor> else \<lceil>x\<rceil>))
      | PStr s \<Rightarrow>
          (if isreal
           then (case parse_decimal (str_strip s) of None \<Rightarrow> Inl ValueError | Some x \<Rightarrow> Inr x)
           else if str_strip s = [] then Inl ValueError
           else (case digits_val 0 (str_strip s) of
                   None \<Rightarrow> Inl ValueError
                 | Some n \<Rightarrow> Inr (of_nat n)))
      | PNone \<Rightarrow> Inl TypeError)"

subsection \<open>The registry OCRiskFactors\<close>

text \<open>\<open>OrderedDict(pairs)\<close> stores the pairs one by one: a new key goes to the end, a key
  already present keeps its place and takes the new value. Lookup \<open>d[k]\<close> is \<^const>\<open>map_of\<close>.\<close>

fun od_set :: "'k \<Rightarrow> 'v \<Rightarrow> ('k \<times> 'v) list \<Rightarrow> ('k \<times> 'v) list" where
  "od_set k v [] = [(k, v)]"
| "od_set k v (p # ps) = (if fst p = k then (k, v) # ps else p # od_set k v ps)"

definition OrderedDict :: "('k \<times> 'v) list \<Rightarrow> ('k \<times> 'v) list" where
  "OrderedDict ps = fold (\<lambda>p d. od_set (fst p) (snd p) d) ps []"

definition risk_factors :: "risk_factor list" where
  "risk_factors = [Parity, OralContraception, MHT, TubalLigation, Endometriosis, BMI, Height]"

text \<open>The two class attributes of \<open>OCRiskFactors\<close>. The method \<open>snake_name\<close> is inherited
  from \<open>RiskFactor\<close> (bws/risk_factors/rfs.py, not among the sources), so it is the
  parameter \<open>sn\<close> here.\<close>

definition categories :: "(risk_factor \<Rightarrow> string) \<Rightarrow> (string \<times> int) list" where
  "categories sn = OrderedDict (map (\<lambda>rf. (sn rf, int (length (cats rf)) - 1)) risk_factors)"

definition risk_factors_categories ::
  "(risk_factor \<Rightarrow> string) \<Rightarrow> (string \<times> string list) list" where
  "risk_factors_categories sn = OrderedDict (map (\<lambda>rf. (sn rf, cats rf)) risk_factors)"

text \<open>Modelled from the spec: \<open>RiskFactor.snake_name\<close>, which is not among the sources;
  the spec calls it a stable lowercase-underscore name derived from the class identity.
  It serves as the concrete naming in the instances below.\<close>

fun snake_name :: "risk_factor \<Rightarrow> string" where
  "snake_name Parity = ''parity''"
| "snake_name OralContraception = ''oral_contraception''"
| "snake_name MHT = ''mht''"
| "snake_name TubalLigation = ''tubal_ligation''"
| "snake_name Endometriosis = ''endometriosis''"
| "snake_name BMI = ''bmi''"
| "snake_name Height = ''height''"

section \<open>Properties\<close>

subsection \<open>Evaluating the string methods\<close>

lemma lower_char_colon: "lower_char CHR '':'' = CHR '':''"
  by (simp add: lower_char_def)

lemma str_lower_NEVER: "str_lower ''NEVER'' = ''never''"
  by code_simp

subsection \<open>The enumerated classifiers\<close>

lemma enum_match_yes_no:
  "enum_match v [''na'', ''n'', ''y''] 0 [''-'', ''no'', ''yes''] = Inr (yes_no_category v)"
  by (simp add: yes_no_category_def)

text \<open>
  Claim C2, as the code has it. TubalLigation and Endometriosis lower-case the value and
  strip its white space, then return the position of the matching label (\<open>-\<close>, \<open>no\<close>,
  \<open>yes\<close>) or alternate code (\<open>na\<close>, \<open>n\<close>, \<open>y\<close>), and 0 when there is none; they never
  raise. MHT compares the value unchanged, so its matching is case-sensitive: exactly \<open>N\<close>
  and \<open>never\<close> give 1, exactly \<open>E\<close>, \<open>F\<close>, \<open>C\<close> and \<open>ever\<close> give 2, and every other string
  gives 0.
\<close>

theorem enumerated_get_category:
  "TubalLigation_get_category val = Inr (yes_no_category (str_strip (str_lower val)))
   \<and> Endometriosis_get_category val = Inr (yes_no_category (str_strip (str_lower val)))
   \<and> MHT_get_category val =
       (if val = ''N'' \<or> val = ''never'' then 1
        else if val = ''E'' \<or> val = ''F'' \<or> val = ''C'' \<or> val = ''ever'' then 2
        else 0)"
proof -
  have "TubalLigation_get_category val = Inr (yes_no_category (str_strip (str_lower val)))"
    unfolding TubalLigation_get_category_def Let_def cats.simps by (rule enum_match_yes_no)
  moreover
  have "Endometriosis_get_category val = Inr (yes_no_category (str_strip (str_lower val)))"
    unfolding Endometriosis_get_category_def Let_def cats.simps by (rule enum_match_yes_no)
  ultimately show ?thesis
    by (simp add: MHT_get_category_def)
qed

text \<open>
  Claim C2 as stated fails for MHT: \<open>NEVER\<close> is the canonical label \<open>never\<close> of category 1
  up to case, and is classified 0.
\<close>

theorem MHT_case_sensitive_counterexample:
  "str_lower ''NEVER'' = cats MHT ! 1 \<and> MHT_get_category ''NEVER'' = 0"
  by (simp add: str_lower_NEVER MHT_get_category_def)

subsection \<open>OralContraception\<close>

lemma split_acc_no_sep: "sep \<notin> set s \<Longrightarrow> split_acc sep acc s = [rev acc @ s]"
  by (induction s arbitrary: acc) auto

lemma split_acc_first:
  "sep \<notin> set a \<Longrightarrow> split_acc sep acc (a @ sep # b) = (rev acc @ a) # split_acc sep [] b"
  by (induction a arbitrary: acc) auto

lemma str_split_two:
  "sep \<notin> set a \<Longrightarrow> sep \<notin> set b \<Longrightarrow> str_split sep (a @ sep # b) = [a, b]"
  by (simp add: str_split_def split_acc_first split_acc_no_sep)

lemma split_acc_nonempty: "split_acc sep acc s \<noteq> []"
  by (induction s arbitrary: acc) auto

lemma split_acc_has_second:
  "sep \<in> set s \<Longrightarrow> \<exists>a b r. split_acc sep acc s = a # b # r"
proof (induction s arbitrary: acc)
  case Nil
  then show ?case by simp
next
  case (Cons c cs)
  show ?case
  proof (cases "c = sep")
    case True
    then show ?thesis
      using split_acc_nonempty [of sep "[]" cs] by (cases "split_acc sep [] cs") auto
  next
    case False
    with Cons show ?thesis by auto
  qed
qed

lemma colon_in_lower: "CHR '':'' \<in> set val \<Longrightarrow> CHR '':'' \<in> set (str_lower val)"
  unfolding str_lower_def using lower_char_colon by force

lemma colon_not_special:
  assumes "CHR '':'' \<in> set val"
  shows "val \<noteq> ''-''" "val \<noteq> ''N''" "str_lower val \<noteq> ''never''" "str_lower val \<noteq> ''<1''"
proof -
  from assms show "val \<noteq> ''-''" by auto
  from assms show "val \<noteq> ''N''" by auto
  from colon_in_lower [OF assms] show "str_lower val \<noteq> ''never''" by auto
  from colon_in_lower [OF assms] show "str_lower val \<noteq> ''<1''" by auto
qed

lemma OC_colon:
  assumes "CHR '':'' \<in> set val" and "str_split CHR '':'' val = a # y # r"
  shows "OralContraception_get_category get_num base val isreal =
     (if str_strip y = ''<1'' \<or> str_strip y = ''< 1'' then Inr 1
      else (case get_num (PStr y) True of
              Inr v \<Rightarrow> if v < 1 then Inr 1 else base (PNum v) isreal
            | Inl e \<Rightarrow> base (PStr y) isreal))"
  using assms colon_not_special [OF assms(1)]
  by (simp add: OralContraception_get_category_def)

lemma OC_label_years:
  assumes "CHR '':'' \<notin> set label" and "CHR '':'' \<notin> set years"
  shows "OralContraception_get_category get_num base (label @ CHR '':'' # years) isreal =
     (if str_strip years = ''<1'' \<or> str_strip years = ''< 1'' then Inr 1
      else (case get_num (PStr years) True of
              Inr v \<Rightarrow> if v < 1 then Inr 1 else base (PNum v) isreal
            | Inl e \<Rightarrow> base (PStr years) isreal))"
proof -
  have "CHR '':'' \<in> set (label @ CHR '':'' # years)" by simp
  moreover from assms have "str_split CHR '':'' (label @ CHR '':'' # years) = label # years # []"
    by (simp add: str_split_two)
  ultimately show ?thesis by (rule OC_colon)
qed

lemma str_lower_lt1: "str_lower ''<1'' = ''<1''"
  by code_simp

lemma OC_total:
  assumes "\<And>v. \<exists>n. base v isreal = Inr n"
  shows "\<exists>n. OralContraception_get_category get_num base val isreal = Inr n"
proof (cases "CHR '':'' \<in> set val")
  case True
  then obtain a y r where "str_split CHR '':'' val = a # y # r"
    unfolding str_split_def using split_acc_has_second by blast
  with True have "OralContraception_get_category get_num base val isreal =
     (if str_strip y = ''<1'' \<or> str_strip y = ''< 1'' then Inr 1
      else (case get_num (PStr y) True of
              Inr v \<Rightarrow> if v < 1 then Inr 1 else base (PNum v) isreal
            | Inl e \<Rightarrow> base (PStr y) isreal))"
    by (rule OC_colon)
  with assms show ?thesis by (simp split: sum.split)
next
  case False
  then show ?thesis by (simp add: OralContraception_get_category_def)
qed

lemma RiskFactor_get_category_total:
  "\<exists>n. RiskFactor_get_category get_num labels v b = Inr n"
  by (simp add: RiskFactor_get_category_def split: sum.split)

lemma RiskFactor_get_category_unparsable:
  assumes "\<exists>e. get_num v b = Inl e"
  shows "RiskFactor_get_category get_num labels v b = Inr 0"
  using assms by (auto simp add: RiskFactor_get_category_def)

text \<open>
  Claim C3. Whatever \<open>get_num\<close> and the base classifier are: \<open>-\<close> gives 0; \<open>N\<close>, \<open>never\<close>
  in any case and \<open><1\<close> give 1; a value \<open>label:years\<close> gives 1 when \<open>years\<close>, stripped, is
  \<open><1\<close> or \<open>< 1\<close>, or when \<open>get_num\<close> reads \<open>years\<close> as a number below 1; and a value
  without a colon that is none of the recognised words gives 0. The last statement of the
  method hands the value to the base classifier outside the \<open>try\<close>; with the base
  classifier as the spec describes it, on the labels of OralContraception, a value
  \<open>label:years\<close> whose \<open>years\<close> is none of the above and makes \<open>get_num\<close> raise gives 0,
  and the method returns a category, never an exception, for every string and every
  \<open>get_num\<close>.
\<close>

theorem OralContraception_get_category_cases:
  "OralContraception_get_category get_num base ''-'' isreal = Inr 0
    \<and> OralContraception_get_category get_num base ''N'' isreal = Inr 1
    \<and> (str_lower val = ''never'' \<longrightarrow>
          OralContraception_get_category get_num base val isreal = Inr 1)
    \<and> OralContraception_get_category get_num base ''<1'' isreal = Inr 1
    \<and> (CHR '':'' \<notin> set label \<and> CHR '':'' \<notin> set years
         \<and> (str_strip years = ''<1'' \<or> str_strip years = ''< 1''
              \<or> (\<exists>v. get_num (PStr years) True = Inr v \<and> v < 1)) \<longrightarrow>
          OralContraception_get_category get_num base (label @ '':'' @ years) isreal = Inr 1)
    \<and> (val \<noteq> ''N'' \<and> str_lower val \<noteq> ''never'' \<and> str_lower val \<noteq> ''<1''
         \<and> CHR '':'' \<notin> set val \<longrightarrow>
          OralContraception_get_category get_num base val isreal = Inr 0)
    \<and> (CHR '':'' \<notin> set label \<and> CHR '':'' \<notin> set years
         \<and> str_strip years \<noteq> ''<1'' \<and> str_strip years \<noteq> ''< 1''
         \<and> (\<exists>e. get_num (PStr years) True = Inl e)
         \<and> (\<exists>e. get_num (PStr years) isreal = Inl e) \<longrightarrow>
          OralContraception_get_category get_num
            (RiskFactor_get_category get_num (cats OralContraception))
            (label @ '':'' @ years) isreal = Inr 0)
    \<and> (\<exists>n. OralContraception_get_category get_num
            (RiskFactor_get_category get_num (cats OralContraception)) val isreal = Inr n)"
proof -
  let ?super = "RiskFactor_get_category get_num (cats OralContraception)"
  have dash: "OralContraception_get_category get_num base ''-'' isreal = Inr 0"
    by (simp add: OralContraception_get_category_def)
  have N: "OralContraception_get_category get_num base ''N'' isreal = Inr 1"
    by (simp add: OralContraception_get_category_def)
  have never: "str_lower val = ''never'' \<longrightarrow>
      OralContraception_get_category get_num base val isreal = Inr 1"
    by (auto simp add: OralContraception_get_category_def str_lower_def)
  have lt1: "OralContraception_get_category get_num base ''<1'' isreal = Inr 1"
    by (simp add: OralContraception_get_category_def str_lower_lt1)
  have below: "OralContraception_get_category get_num base (label @ '':'' @ years) isreal = Inr 1"
    if "CHR '':'' \<notin> set label" "CHR '':'' \<notin> set years"
      "str_strip years = ''<1'' \<or> str_strip years = ''< 1''
            \<or> (\<exists>v. get_num (PStr years) True = Inr v \<and> v < 1)"
    using that by (auto simp add: OC_label_years)
  have plain: "val \<noteq> ''N'' \<and> str_lower val \<noteq> ''never'' \<and> str_lower val \<noteq> ''<1''
         \<and> CHR '':'' \<notin> set val \<longrightarrow>
       OralContraception_get_category get_num base val isreal = Inr 0"
    by (simp add: OralContraception_get_category_def)
  have unparsable:
    "OralContraception_get_category get_num ?super (label @ '':'' @ years) isreal = Inr 0"
    if c: "CHR '':'' \<notin> set label" "CHR '':'' \<notin> set years"
      and s: "str_strip years \<noteq> ''<1''" "str_strip years \<noteq> ''< 1''"
      and t: "\<exists>e. get_num (PStr years) True = Inl e"
      and r: "\<exists>e. get_num (PStr years) isreal = Inl e"
  proof -
    from t obtain e where "get_num (PStr years) True = Inl e" by blast
    with c s have "OralContraception_get_category get_num ?super (label @ '':'' @ years) isreal
        = ?super (PStr years) isreal"
      by (simp add: OC_label_years)
    also from r have "?super (PStr years) isreal = Inr 0"
      by (rule RiskFactor_get_category_unparsable)
    finally show ?thesis .
  qed
  have total: "\<exists>n. OralContraception_get_category get_num ?super val isreal = Inr n"
    by (rule OC_total) (rule RiskFactor_get_category_total)
  from dash N never lt1 below plain unparsable total show ?thesis by blast
qed

text \<open>
  An instance with the decimal parser, the base classifier being the one of the spec on the
  labels of OralContraception: the values the claim names, two unparsable ones, and
  durations of one year and more in their categories.
\<close>

theorem OralContraception_get_category_cases_witness:
  "OralContraception_get_category decimal_get_num
      (RiskFactor_get_category decimal_get_num (cats OralContraception)) ''-'' False = Inr 0
   \<and> OralContraception_get_category decimal_get_num
      (RiskFactor_get_category decimal_get_num (cats OralContraception)) ''N'' False = Inr 1
   \<and> OralContraception_get_category decimal_get_num
      (RiskFactor_get_category decimal_get_num (cats OralContraception)) ''Never'' False = Inr 1
   \<and> OralContraception_get_category decimal_get_num
      (RiskFactor_get_category decimal_get_num (cats OralContraception)) ''<1'' False = Inr 1
   \<and> decimal_get_num (PStr ''0.5'') True = Inr (1 / 2)
   \<and> OralContraception_get_category decimal_get_num
      (RiskFactor_get_category decimal_get_num (cats OralContraception)) ''X:0.5'' False = Inr 1
   \<and> OralContraception_get_category decimal_get_num
      (RiskFactor_get_category decimal_get_num (cats OralContraception)) ''X:<1'' False = Inr 1
   \<and> OralContraception_get_category decimal_get_num
      (RiskFactor_get_category decimal_get_num (cats OralContraception)) ''X:< 1'' False = Inr 1
   \<and> decimal_get_num (PStr ''abc'') True = Inl ValueError
   \<and> decimal_get_num (PStr ''abc'') False = Inl ValueError
   \<and> OralContraception_get_category decimal_get_num
      (RiskFactor_get_category decimal_get_num (cats OralContraception)) ''X:abc'' False = Inr 0
   \<and> OralContraception_get_category decimal_get_num
      (RiskFactor_get_category decimal_get_num (cats OralContraception)) ''abc'' False = Inr 0
   \<and> OralContraception_get_category decimal_get_num
      (RiskFactor_get_category decimal_get_num (cats OralContraception)) ''X:1'' False = Inr 2
   \<and> OralContraception_get_category decimal_get_num
      (RiskFactor_get_category decimal_get_num (cats OralContraception)) ''X:4.5'' False = Inr 2
   \<and> OralContraception_get_category decimal_get_num
      (RiskFactor_get_category decimal_get_num (cats OralContraception)) ''X:12'' False = Inr 4
   \<and> OralContraception_get_category decimal_get_num
      (RiskFactor_get_category decimal_get_num (cats OralContraception)) ''X:15'' False = Inr 5"
proof -
  let ?base = "RiskFactor_get_category decimal_get_num (cats OralContraception)"
  note cases = OralContraception_get_category_cases [of decimal_get_num ?base False]
  have half: "decimal_get_num (PStr ''0.5'') True = Inr (1 / 2)" by code_simp
  have below: "\<exists>v. decimal_get_num (PStr ''0.5'') True = Inr v \<and> v < 1"
    by (rule exI [of _ "1 / 2"]) (simp add: half)
  have abc: "decimal_get_num (PStr ''abc'') r = Inl ValueError" for r
    by (cases r) (simp, code_simp, simp, code_simp)
  then have raises: "\<exists>e. decimal_get_num (PStr ''abc'') True = Inl e"
    "\<exists>e. decimal_get_num (PStr ''abc'') False = Inl e" by blast+
  have low: "str_lower ''Never'' = ''never''" "str_lower ''abc'' = ''abc''" by code_simp+
  have strip: "str_strip ''< 1'' = ''< 1''" "str_strip ''abc'' = ''abc''"
    "str_strip ''<1'' = ''<1''" by code_simp+
  from cases [of "''Never''" "''X''" "''0.5''"] low below
  have a: "OralContraception_get_category decimal_get_num ?base ''-'' False = Inr 0"
    "OralContraception_get_category decimal_get_num ?base ''N'' False = Inr 1"
    "OralContraception_get_category decimal_get_num ?base ''Never'' False = Inr 1"
    "OralContraception_get_category decimal_get_num ?base ''<1'' False = Inr 1"
    "OralContraception_get_category decimal_get_num ?base ''X:0.5'' False = Inr 1"
    by simp_all
  from cases [of "''abc''" "''X''" "''< 1''"] strip
  have b: "OralContraception_get_category decimal_get_num ?base ''X:< 1'' False = Inr 1"
    by simp
  from cases [of "''abc''" "''X''" "''<1''"] strip
  have b': "OralContraception_get_category decimal_get_num ?base ''X:<1'' False = Inr 1"
    by simp
  from cases [of "''abc''" "''X''" "''abc''"] strip low raises
  have c: "OralContraception_get_category decimal_get_num ?base ''X:abc'' False = Inr 0"
    "OralContraception_get_category decimal_get_num ?base ''abc'' False = Inr 0"
    by simp_all
  have d: "OralContraception_get_category decimal_get_num ?base ''X:1'' False = Inr 2"
    "OralContraception_get_category decimal_get_num ?base ''X:4.5'' False = Inr 2"
    "OralContraception_get_category decimal_get_num ?base ''X:12'' False = Inr 4"
    "OralContraception_get_category decimal_get_num ?base ''X:15'' False = Inr 5"
    by code_simp+
  from a b b' c d half abc show ?thesis by simp
qed

subsection \<open>BMI\<close>

lemma parse_label_BMI:
  "parse_label ''-'' = None"
  "parse_label ''<22.5'' = Some (Below (45 / 2))"
  "parse_label ''22.5-<30'' = Some (Between (45 / 2) 30)"
  "parse_label ''>=30'' = Some (AtLeast 30)"
  by code_simp+

lemma find_category_BMI:
  "find_category v 0 (cats BMI) = (if v < 45 / 2 then 1 else if v < 30 then 2 else 3)"
  by (simp add: parse_label_BMI)

text \<open>
  Claim C9, for the base classifier as the spec describes it. Whatever the parser, a value
  it reads as the number \<open>v\<close> is put by \<open>BMI.get_category\<close> in category 1 when \<open>v < 22.5\<close>,
  in category 2 when \<open>22.5 \<le> v < 30\<close> and in category 3 when \<open>30 \<le> v\<close>: the ranges of the
  labels \<open><22.5\<close>, \<open>22.5-<30\<close> and \<open>>=30\<close>, half-open and increasing. So 21.9 is in
  category 1, 22.5 and 29.9 in category 2 and 30.0 in category 3. A value the parser raises
  on, and a missing value, are in category 0.
\<close>

theorem BMI_get_category_buckets:
  "(val \<noteq> PNone \<and> get_num val True = Inr v \<longrightarrow>
      BMI_get_category get_num val True = Inr (if v < 22.5 then 1 else if v < 30 then 2 else 3))
   \<and> (val \<noteq> PNone \<and> get_num val True = Inr 21.9 \<longrightarrow> BMI_get_category get_num val True = Inr 1)
   \<and> (val \<noteq> PNone \<and> get_num val True = Inr 22.5 \<longrightarrow> BMI_get_category get_num val True = Inr 2)
   \<and> (val \<noteq> PNone \<and> get_num val True = Inr 29.9 \<longrightarrow> BMI_get_category get_num val True = Inr 2)
   \<and> (val \<noteq> PNone \<and> get_num val True = Inr 30.0 \<longrightarrow> BMI_get_category get_num val True = Inr 3)
   \<and> ((\<exists>e. get_num val True = Inl e) \<longrightarrow> BMI_get_category get_num val True = Inr 0)
   \<and> BMI_get_category get_num PNone True = Inr 0"
proof -
  have num: "BMI_get_category get_num val True = Inr (if w < 22.5 then 1 else if w < 30 then 2 else 3)"
    if "val \<noteq> PNone" "get_num val True = Inr w" for w
    unfolding BMI_get_category_def RiskFactor_get_category_def find_category_BMI
    using that by simp
  have unparsable: "BMI_get_category get_num val True = Inr 0" if "\<exists>e. get_num val True = Inl e"
    using that by (auto simp add: BMI_get_category_def RiskFactor_get_category_def)
  have missing: "BMI_get_category get_num PNone True = Inr 0"
    by (simp add: BMI_get_category_def RiskFactor_get_category_def)
  from num [of v] num [of "21.9"] num [of "22.5"] num [of "29.9"] num [of "30.0"] unparsable missing
  show ?thesis by simp
qed

text \<open>
  An instance with the decimal parser: the four values of the claim, given as numbers or as
  text, and a text that is no number.
\<close>

theorem BMI_get_category_buckets_witness:
  "BMI_get_category decimal_get_num (PNum 21.9) True = Inr 1
   \<and> decimal_get_num (PStr ''22.5'') True = Inr 22.5
   \<and> BMI_get_category decimal_get_num (PStr ''22.5'') True = Inr 2
   \<and> BMI_get_category decimal_get_num (PNum 29.9) True = Inr 2
   \<and> BMI_get_category decimal_get_num (PNum 30.0) True = Inr 3
   \<and> decimal_get_num (PStr ''high'') True = Inl ValueError
   \<and> BMI_get_category decimal_get_num (PStr ''high'') True = Inr 0"
proof -
  have num: "decimal_get_num (PNum x) True = Inr x" for x
    by (simp add: decimal_get_num_def)
  have str: "decimal_get_num (PStr ''22.5'') True = Inr 22.5" by code_simp
  have high: "decimal_get_num (PStr ''high'') True = Inl ValueError" by code_simp
  from BMI_get_category_buckets [of "PNum 21.9" decimal_get_num "21.9"] num
  have a: "BMI_get_category decimal_get_num (PNum 21.9) True = Inr 1" by simp
  from BMI_get_category_buckets [of "PStr ''22.5''" decimal_get_num "22.5"] str
  have b: "BMI_get_category decimal_get_num (PStr ''22.5'') True = Inr 2" by simp
  from BMI_get_category_buckets [of "PNum 29.9" decimal_get_num "29.9"] num
  have c: "BMI_get_category decimal_get_num (PNum 29.9) True = Inr 2" by simp
  from BMI_get_category_buckets [of "PNum 30.0" decimal_get_num "30.0"] num
  have d: "BMI_get_category decimal_get_num (PNum 30.0) True = Inr 3" by simp
  from BMI_get_category_buckets [of "PStr ''high''" decimal_get_num 0] high
  have e: "BMI_get_category decimal_get_num (PStr ''high'') True = Inr 0" by simp
  from a b c d e str high show ?thesis by simp
qed

subsection \<open>The registry's dictionaries\<close>

lemma od_set_fresh: "k \<notin> fst ` set d \<Longrightarrow> od_set k v d = d @ [(k, v)]"
  by (induction d) auto

lemma fold_od_set_distinct:
  "distinct (map fst (d @ ps)) \<Longrightarrow> fold (\<lambda>p d. od_set (fst p) (snd p) d) ps d = d @ ps"
proof (induction ps arbitrary: d)
  case Nil
  then show ?case by simp
next
  case (Cons p ps)
  from Cons.prems have fresh: "fst p \<notin> fst ` set d" by auto
  from Cons.prems have "distinct (map fst ((d @ [p]) @ ps))" by simp
  then have "fold (\<lambda>p d. od_set (fst p) (snd p) d) ps (d @ [p]) = (d @ [p]) @ ps"
    by (rule Cons.IH)
  with fresh show ?case by (simp add: od_set_fresh)
qed

lemma OrderedDict_distinct: "distinct (map fst ps) \<Longrightarrow> OrderedDict ps = ps"
  using fold_od_set_distinct [of "[]" ps] by (simp add: OrderedDict_def)

lemma OrderedDict_of_registry:
  assumes "distinct (map sn risk_factors)"
  shows "OrderedDict (map (\<lambda>rf. (sn rf, f rf)) risk_factors) = map (\<lambda>rf. (sn rf, f rf)) risk_factors"
proof -
  have "map fst (map (\<lambda>rf. (sn rf, f rf)) risk_factors) = map sn risk_factors"
    by (simp add: comp_def)
  with assms have "distinct (map fst (map (\<lambda>rf. (sn rf, f rf)) risk_factors))"
    by (simp only:)
  then show ?thesis by (rule OrderedDict_distinct)
qed

lemma map_of_registry:
  assumes "distinct (map sn risk_factors)" and "rf \<in> set risk_factors"
  shows "map_of (map (\<lambda>rf. (sn rf, f rf)) risk_factors) (sn rf) = Some (f rf)"
proof -
  have "map fst (map (\<lambda>rf. (sn rf, f rf)) risk_factors) = map sn risk_factors"
    by (simp add: comp_def)
  with assms(1) have "distinct (map fst (map (\<lambda>rf. (sn rf, f rf)) risk_factors))"
    by (simp only:)
  moreover from assms(2) have "(sn rf, f rf) \<in> set (map (\<lambda>rf. (sn rf, f rf)) risk_factors)"
    by auto
  ultimately show ?thesis by (simp only: map_of_eq_Some_iff)
qed

lemma snake_name_distinct: "distinct (map snake_name risk_factors)"
  by (simp add: risk_factors_def)

text \<open>
  Claim C6, as the code has it. Whenever the names of the seven registered kinds are
  pairwise different, \<open>categories\<close> maps the name of each registered kind to the number
  of its labels minus one (label 0, the unknown category, is not counted), and
  \<open>risk_factors_categories\<close> maps it to the label list itself; the keys of both
  dictionaries are the names in registry order.
\<close>

theorem registry_dictionaries:
  assumes "distinct (map sn risk_factors)" and "rf \<in> set risk_factors"
  shows "map_of (categories sn) (sn rf) = Some (int (length (cats rf)) - 1)
    \<and> map_of (risk_factors_categories sn) (sn rf) = Some (cats rf)
    \<and> map fst (categories sn) = map sn risk_factors
    \<and> map fst (risk_factors_categories sn) = map sn risk_factors"
proof -
  have c: "categories sn = map (\<lambda>rf. (sn rf, int (length (cats rf)) - 1)) risk_factors"
    unfolding categories_def using assms(1) by (rule OrderedDict_of_registry)
  have r: "risk_factors_categories sn = map (\<lambda>rf. (sn rf, cats rf)) risk_factors"
    unfolding risk_factors_categories_def using assms(1) by (rule OrderedDict_of_registry)
  have "map_of (categories sn) (sn rf) = Some (int (length (cats rf)) - 1)"
    unfolding c using assms by (rule map_of_registry)
  moreover have "map_of (risk_factors_categories sn) (sn rf) = Some (cats rf)"
    unfolding r using assms by (rule map_of_registry)
  moreover have "map fst (categories sn) = map sn risk_factors"
    unfolding c by (simp add: comp_def)
  moreover have "map fst (risk_factors_categories sn) = map sn risk_factors"
    unfolding r by (simp add: comp_def)
  ultimately show ?thesis by simp
qed

text \<open>An instance: the lowercase-underscore names, and the entries of BMI.\<close>

theorem registry_dictionaries_witness:
  "distinct (map snake_name risk_factors) \<and> BMI \<in> set risk_factors
    \<and> map_of (categories snake_name) ''bmi'' = Some 3
    \<and> map_of (risk_factors_categories snake_name) ''bmi'' = Some [''-'', ''<22.5'', ''22.5-<30'', ''>=30'']
    \<and> map fst (categories snake_name) = [''parity'', ''oral_contraception'', ''mht'',
         ''tubal_ligation'', ''endometriosis'', ''bmi'', ''height'']
    \<and> map fst (risk_factors_categories snake_name) = map fst (categories snake_name)"
proof -
  have m: "BMI \<in> set risk_factors" by (simp add: risk_factors_def)
  have n: "map snake_name risk_factors = [''parity'', ''oral_contraception'', ''mht'',
         ''tubal_ligation'', ''endometriosis'', ''bmi'', ''height'']"
    by (simp add: risk_factors_def)
  from registry_dictionaries [OF snake_name_distinct m] snake_name_distinct m n
  show ?thesis by simp
qed

text \<open>
  Claim C6 as stated fails on the count: Parity has four labels, and \<open>categories\<close> maps
  its name to 3.
\<close>

theorem categories_count_counterexample:
  "length (cats Parity) = 4 \<and> map_of (categories snake_name) (snake_name Parity) = Some 3"
  by (simp add: categories_def OrderedDict_def risk_factors_def)

end
